theory Spec2Isabelle
  imports Main "HOL-Library.Word"
begin

section \<open>The ReFiGrantFHE contract\<close>

subsection \<open>Solidity value types\<close>

text \<open>
  \<open>address\<close> is 160 bits wide, \<open>uint256\<close> and \<open>bytes32\<close> are 256 bits wide.
  An \<open>euint32\<close> is the ciphertext handle of the FHE library, a 256-bit value;
  \<open>euint32(0)\<close> is the handle that was never initialised.  \<open>bytes\<close> is a byte string.
\<close>

type_synonym address = "160 word"
type_synonym uint256 = "256 word"
type_synonym bytes32 = "256 word"
type_synonym euint32 = "256 word"
type_synonym bytes = "8 word list"

subsection \<open>Storage layout\<close>

record GrantApplication =
  encryptedAmount :: euint32
  encryptedScore :: euint32
  encryptedGrantAmount :: euint32

record DecryptionContext =
  batchId :: uint256
  stateHash :: bytes32
  processed :: bool

datatype event =
    OwnershipTransferred address address
  | ProviderAdded address
  | ProviderRemoved address
  | Paused address
  | Unpaused address
  | CooldownSecondsSet uint256 uint256
  | BatchOpened uint256
  | BatchClosed uint256
  | GrantSubmitted address uint256 euint32 euint32
  | DecryptionRequested uint256 uint256 bytes32
  | DecryptionCompleted uint256 uint256 uint256 uint256 uint256

text \<open>
  The ten custom errors of the contract, and the two reverts the compiler adds:
  \<open>Panic\<close> is the arithmetic-overflow panic of checked \<open>uint256\<close> addition
  (Solidity 0.8), \<open>Revert\<close> is the data-less revert of a failing \<open>abi.decode\<close>.
\<close>

datatype error =
    NotOwner
  | NotProvider
  | PausedError
  | CooldownActive
  | BatchNotActive
  | BatchAlreadyActive
  | InvalidBatch
  | ReplayAttempt
  | StateMismatch
  | DecryptionFailed
  | Panic
  | Revert

text \<open>
  A Solidity mapping holds a value for every key: a key never written reads as the
  zero value of the value type.  Mappings are therefore total functions.  The emitted
  events are kept as a log in emission order.
\<close>

record contract_state =
  owner :: address
  isProvider :: "address \<Rightarrow> bool"
  paused :: bool
  cooldownSeconds :: uint256
  lastSubmissionTime :: "address \<Rightarrow> uint256"
  lastDecryptionRequestTime :: "address \<Rightarrow> uint256"
  applications :: "uint256 \<Rightarrow> GrantApplication"
  batchActive :: "uint256 \<Rightarrow> bool"
  batchTotalEncryptedAmount :: "uint256 \<Rightarrow> uint256"
  batchTotalEncryptedScore :: "uint256 \<Rightarrow> uint256"
  decryptionContexts :: "uint256 \<Rightarrow> DecryptionContext"
  events :: "event list"

subsection \<open>The call and its surroundings\<close>

text \<open>What the EVM supplies to one call: \<open>msg.sender\<close> and \<open>block.timestamp\<close>.\<close>

record call =
  msg_sender :: address
  block_timestamp :: uint256

text \<open>
  What lies outside the contract and is imported by it, as seen by one call:
  \<^item> \<open>this_address\<close> is \<open>address(this)\<close>;
  \<^item> \<open>fheMul\<close> is the homomorphic product of the FHE library;
  \<^item> \<open>keccak_encode cts a\<close> is \<open>keccak256(abi.encode(cts, a))\<close>;
  \<^item> \<open>requestDecryption cts\<close> is the request id that the oracle bridge hands back to
    \<open>FHE.requestDecryption(cts, this.myCallback.selector)\<close> in this call;
  \<^item> \<open>checkSignatures rid cleartexts proof\<close> tells whether
    \<open>FHE.checkSignatures\<close> returns (\<open>True\<close>) or reverts (\<open>False\<close>).
\<close>

record env =
  this_address :: address
  fheMul :: "euint32 \<Rightarrow> euint32 \<Rightarrow> euint32"
  keccak_encode :: "bytes32 list \<Rightarrow> address \<Rightarrow> bytes32"
  requestDecryption :: "bytes32 list \<Rightarrow> uint256"
  checkSignatures :: "uint256 \<Rightarrow> bytes \<Rightarrow> bytes \<Rightarrow> bool"

text \<open>
  Modelled from the spec: the FHE library's \<open>isInitialized\<close> and \<open>toBytes32\<close> are
  imported from \<open>@fhevm/solidity\<close> and are not part of the sources.  The spec describes
  the uninitialised handle as a distinguished sentinel, the zero handle; a handle is
  initialised when it is not that sentinel, and its serialisation is the handle itself.
\<close>

definition isInitialized :: "euint32 \<Rightarrow> bool" where
  "isInitialized v = (v \<noteq> 0)"

definition toBytes32 :: "euint32 \<Rightarrow> bytes32" where
  "toBytes32 v = v"

text \<open>Checked \<open>uint256\<close> addition: \<open>None\<close> stands for the overflow panic.\<close>

definition checked_add :: "uint256 \<Rightarrow> uint256 \<Rightarrow> uint256 option" where
  "checked_add a b = (if unat a + unat b < 2 ^ 256 then Some (a + b) else None)"

text \<open>
  \<open>abi.decode(cleartexts, (uint256))\<close>: reverts when fewer than 32 bytes are supplied,
  and otherwise reads the first 32 bytes as a big-endian number.
\<close>

definition abi_decode_uint256 :: "bytes \<Rightarrow> uint256 option" where
  "abi_decode_uint256 bs =
     (if length bs < 32 then None
      else Some (foldl (\<lambda>acc b. acc * 256 + ucast b) 0 (take 32 bs)))"

subsection \<open>Modifiers\<close>

definition onlyOwner ::
  "call \<Rightarrow> contract_state \<Rightarrow> error + contract_state \<Rightarrow> error + contract_state" where
  "onlyOwner c s body = (if msg_sender c \<noteq> owner s then Inl NotOwner else body)"

definition onlyProvider ::
  "call \<Rightarrow> contract_state \<Rightarrow> error + contract_state \<Rightarrow> error + contract_state" where
  "onlyProvider c s body = (if \<not> isProvider s (msg_sender c) then Inl NotProvider else body)"

definition whenNotPaused ::
  "contract_state \<Rightarrow> error + contract_state \<Rightarrow> error + contract_state" where
  "whenNotPaused s body = (if paused s then Inl PausedError else body)"

subsection \<open>Constructor and owner operations\<close>

definition constructor :: "call \<Rightarrow> contract_state" where
  "constructor c =
     \<lparr> owner = msg_sender c,
       isProvider = (\<lambda>_. False)(msg_sender c := True),
       paused = False,
       cooldownSeconds = 60,
       lastSubmissionTime = (\<lambda>_. 0),
       lastDecryptionRequestTime = (\<lambda>_. 0),
       applications =
         (\<lambda>_. \<lparr> encryptedAmount = 0, encryptedScore = 0, encryptedGrantAmount = 0 \<rparr>),
       batchActive = (\<lambda>_. False),
       batchTotalEncryptedAmount = (\<lambda>_. 0),
       batchTotalEncryptedScore = (\<lambda>_. 0),
       decryptionContexts = (\<lambda>_. \<lparr> batchId = 0, stateHash = 0, processed = False \<rparr>),
       events = [ProviderAdded (msg_sender c)] \<rparr>"

definition transferOwnership :: "call \<Rightarrow> address \<Rightarrow> contract_state \<Rightarrow> error + contract_state" where
  "transferOwnership c newOwner s =
     onlyOwner c s
       (let previousOwner = owner s in
        Inr (s\<lparr> owner := newOwner,
                events := events s @ [OwnershipTransferred previousOwner newOwner] \<rparr>))"

definition addProvider :: "call \<Rightarrow> address \<Rightarrow> contract_state \<Rightarrow> error + contract_state" where
  "addProvider c provider s =
     onlyOwner c s
       (if \<not> isProvider s provider
        then Inr (s\<lparr> isProvider := (isProvider s)(provider := True),
                     events := events s @ [ProviderAdded provider] \<rparr>)
        else Inr s)"

definition removeProvider :: "call \<Rightarrow> address \<Rightarrow> contract_state \<Rightarrow> error + contract_state" where
  "removeProvider c provider s =
     onlyOwner c s
       (if isProvider s provider
        then Inr (s\<lparr> isProvider := (isProvider s)(provider := False),
                     events := events s @ [ProviderRemoved provider] \<rparr>)
        else Inr s)"

definition pause :: "call \<Rightarrow> contract_state \<Rightarrow> error + contract_state" where
  "pause c s =
     onlyOwner c s
       (whenNotPaused s
          (Inr (s\<lparr> paused := True, events := events s @ [Paused (msg_sender c)] \<rparr>)))"

definition unpause :: "call \<Rightarrow> contract_state \<Rightarrow> error + contract_state" where
  "unpause c s =
     onlyOwner c s
       (if \<not> paused s then Inl PausedError
        else Inr (s\<lparr> paused := False, events := events s @ [Unpaused (msg_sender c)] \<rparr>))"

definition setCooldownSeconds :: "call \<Rightarrow> uint256 \<Rightarrow> contract_state \<Rightarrow> error + contract_state" where
  "setCooldownSeconds c newCooldownSeconds s =
     onlyOwner c s
       (let oldCooldownSeconds = cooldownSeconds s in
        Inr (s\<lparr> cooldownSeconds := newCooldownSeconds,
                events := events s @ [CooldownSecondsSet oldCooldownSeconds newCooldownSeconds] \<rparr>))"

definition openBatch :: "call \<Rightarrow> uint256 \<Rightarrow> contract_state \<Rightarrow> error + contract_state" where
  "openBatch c b s =
     onlyOwner c s
       (if batchActive s b then Inl BatchAlreadyActive
        else Inr (s\<lparr> batchActive := (batchActive s)(b := True),
                     events := events s @ [BatchOpened b] \<rparr>))"

definition closeBatch :: "call \<Rightarrow> uint256 \<Rightarrow> contract_state \<Rightarrow> error + contract_state" where
  "closeBatch c b s =
     onlyOwner c s
       (if \<not> batchActive s b then Inl BatchNotActive
        else Inr (s\<lparr> batchActive := (batchActive s)(b := False),
                     events := events s @ [BatchClosed b] \<rparr>))"

subsection \<open>Submission, derivation with disclosure request, and the callback\<close>

text \<open>
  A call that reverts is \<open>Inl\<close> of its error: none of its writes and none of its
  events survive.  A call that returns is \<open>Inr\<close> of the state it leaves behind.
  The modifiers run in the order in which the function header lists them, before the
  body.

  In \<open>myCallback\<close> the signature check sits in a \<open>try\<close> whose \<open>catch\<close> turns any
  revert of the check into \<open>DecryptionFailed\<close>.  The decoding of the cleartexts
  stands in the success block of that \<open>try\<close>, which the \<open>catch\<close> does not cover:
  when it fails, the call reverts without a named error.
\<close>

definition submitGrantApplication ::
  "call \<Rightarrow> uint256 \<Rightarrow> euint32 \<Rightarrow> euint32 \<Rightarrow> contract_state \<Rightarrow> error + contract_state" where
  "submitGrantApplication c b encAmount encScore s =
     onlyProvider c s
       (whenNotPaused s
          (if \<not> batchActive s b then Inl BatchNotActive
           else case checked_add (lastSubmissionTime s (msg_sender c)) (cooldownSeconds s) of
               None \<Rightarrow> Inl Panic
             | Some limit \<Rightarrow>
                 if block_timestamp c < limit then Inl CooldownActive
                 else Inr (s\<lparr> lastSubmissionTime :=
                                (lastSubmissionTime s)(msg_sender c := block_timestamp c),
                              applications :=
                                (applications s)
                                  (b := \<lparr> encryptedAmount = encAmount,
                                          encryptedScore = encScore,
                                          encryptedGrantAmount = 0 \<rparr>),
                              events :=
                                events s @ [GrantSubmitted (msg_sender c) b encAmount encScore] \<rparr>)))"

definition calculateAndRequestGrantAmountDecryption ::
  "env \<Rightarrow> call \<Rightarrow> uint256 \<Rightarrow> contract_state \<Rightarrow> error + contract_state" where
  "calculateAndRequestGrantAmountDecryption e c b s =
     onlyOwner c s
       (whenNotPaused s
          (case checked_add (lastDecryptionRequestTime s (msg_sender c)) (cooldownSeconds s) of
               None \<Rightarrow> Inl Panic
             | Some limit \<Rightarrow>
                 if block_timestamp c < limit then Inl CooldownActive
                 else
                   let app = applications s b in
                   if \<not> isInitialized (encryptedAmount app) then Inl InvalidBatch
                   else if \<not> isInitialized (encryptedScore app) then Inl InvalidBatch
                   else
                     let grant = fheMul e (encryptedAmount app) (encryptedScore app);
                         cts = [toBytes32 grant];
                         hash = keccak_encode e cts (this_address e);
                         requestId = requestDecryption e cts
                     in Inr (s\<lparr> lastDecryptionRequestTime :=
                                  (lastDecryptionRequestTime s)(msg_sender c := block_timestamp c),
                                applications :=
                                  (applications s)(b := app\<lparr> encryptedGrantAmount := grant \<rparr>),
                                decryptionContexts :=
                                  (decryptionContexts s)
                                    (requestId :=
                                       \<lparr> batchId = b, stateHash = hash, processed = False \<rparr>),
                                events := events s @ [DecryptionRequested requestId b hash] \<rparr>)))"

definition myCallback ::
  "env \<Rightarrow> call \<Rightarrow> uint256 \<Rightarrow> bytes \<Rightarrow> bytes \<Rightarrow> contract_state \<Rightarrow> error + contract_state" where
  "myCallback e c requestId cleartexts proof s =
     (if processed (decryptionContexts s requestId) then Inl ReplayAttempt
      else
        let app = applications s (batchId (decryptionContexts s requestId));
            cts = [toBytes32 (encryptedGrantAmount app)];
            currentHash = keccak_encode e cts (this_address e)
        in if currentHash \<noteq> stateHash (decryptionContexts s requestId) then Inl StateMismatch
           else if \<not> checkSignatures e requestId cleartexts proof then Inl DecryptionFailed
           else case abi_decode_uint256 cleartexts of
               None \<Rightarrow> Inl Revert
             | Some grantAmount \<Rightarrow>
                 Inr (s\<lparr> decryptionContexts :=
                           (decryptionContexts s)
                             (requestId := (decryptionContexts s requestId)\<lparr> processed := True \<rparr>),
                         events :=
                           events s @
                             [DecryptionCompleted requestId
                                (batchId (decryptionContexts s requestId)) 0 0 grantAmount] \<rparr>))"

subsection \<open>Transactions\<close>

text \<open>The external and public functions of the contract, as one type of operations.\<close>

datatype op =
    TransferOwnership address
  | AddProvider address
  | RemoveProvider address
  | Pause
  | Unpause
  | SetCooldownSeconds uint256
  | OpenBatch uint256
  | CloseBatch uint256
  | SubmitGrantApplication uint256 euint32 euint32
  | CalculateAndRequestGrantAmountDecryption uint256
  | MyCallback uint256 bytes bytes

fun step :: "env \<Rightarrow> call \<Rightarrow> op \<Rightarrow> contract_state \<Rightarrow> error + contract_state" where
  "step e c (TransferOwnership a) s = transferOwnership c a s"
| "step e c (AddProvider a) s = addProvider c a s"
| "step e c (RemoveProvider a) s = removeProvider c a s"
| "step e c Pause s = pause c s"
| "step e c Unpause s = unpause c s"
| "step e c (SetCooldownSeconds n) s = setCooldownSeconds c n s"
| "step e c (OpenBatch b) s = openBatch c b s"
| "step e c (CloseBatch b) s = closeBatch c b s"
| "step e c (SubmitGrantApplication b x y) s = submitGrantApplication c b x y s"
| "step e c (CalculateAndRequestGrantAmountDecryption b) s =
     calculateAndRequestGrantAmountDecryption e c b s"
| "step e c (MyCallback r ct pf) s = myCallback e c r ct pf s"

text \<open>
  A transaction that reverts leaves the storage and the log as they were before the
  call; one that returns commits its writes.
\<close>

definition exec :: "env \<Rightarrow> call \<Rightarrow> op \<Rightarrow> contract_state \<Rightarrow> contract_state" where
  "exec e c x s = (case step e c x s of Inl _ \<Rightarrow> s | Inr s' \<Rightarrow> s')"

fun run :: "(env \<times> call \<times> op) list \<Rightarrow> contract_state \<Rightarrow> contract_state" where
  "run [] s = s"
| "run ((e, c, x) # tr) s = run tr (exec e c x s)"

subsection \<open>The error names of the specification\<close>

text \<open>
  The specification names the failures in its own words.  \<open>spec_name\<close> gives, for each
  error of the contract, the name the specification uses for it; the two compiler-made
  reverts have none.  \<open>fails_with n r\<close> says that the outcome \<open>r\<close> is a failure that the
  specification calls \<open>n\<close>.
\<close>

datatype spec_error =
    Spec_NotOwner
  | Spec_NotSubmitter
  | Spec_Paused
  | Spec_CooldownActive
  | Spec_BatchNotOpen
  | Spec_BatchAlreadyOpen
  | Spec_InvalidBatch
  | Spec_UnknownRequest
  | Spec_ReplayAttempt
  | Spec_StateMismatch
  | Spec_DecryptionFailed

fun spec_name :: "error \<Rightarrow> spec_error option" where
  "spec_name NotOwner = Some Spec_NotOwner"
| "spec_name NotProvider = Some Spec_NotSubmitter"
| "spec_name PausedError = Some Spec_Paused"
| "spec_name CooldownActive = Some Spec_CooldownActive"
| "spec_name BatchNotActive = Some Spec_BatchNotOpen"
| "spec_name BatchAlreadyActive = Some Spec_BatchAlreadyOpen"
| "spec_name InvalidBatch = Some Spec_InvalidBatch"
| "spec_name ReplayAttempt = Some Spec_ReplayAttempt"
| "spec_name StateMismatch = Some Spec_StateMismatch"
| "spec_name DecryptionFailed = Some Spec_DecryptionFailed"
| "spec_name Panic = None"
| "spec_name Revert = None"

definition fails_with :: "spec_error \<Rightarrow> error + contract_state \<Rightarrow> bool" where
  "fails_with n r = (case r of Inl err \<Rightarrow> spec_name err = Some n | Inr _ \<Rightarrow> False)"

subsection \<open>Notions used by the properties\<close>

text \<open>
  The cooldown of an actor whose last action was at \<open>prev\<close> has elapsed at \<open>now\<close> when
  \<open>prev + cooldown \<le> now\<close>, read as numbers.
\<close>

definition cooldown_elapsed :: "uint256 \<Rightarrow> uint256 \<Rightarrow> uint256 \<Rightarrow> bool" where
  "cooldown_elapsed prev cd now = (unat prev + unat cd \<le> unat now)"


text \<open>The context that a request id reads when nothing was ever stored under it.\<close>

definition no_context :: DecryptionContext where
  "no_context = \<lparr> batchId = 0, stateHash = 0, processed = False \<rparr>"

subsection \<open>A concrete setting for examples\<close>

text \<open>
  A toy outside world: handles multiply as numbers, the hash of a handle array adds up
  the handles on top of the contract address, the bridge issues request id 1, and a
  proof is accepted when it is the single byte 1.
\<close>

definition demo_env :: env where
  "demo_env =
     \<lparr> this_address = 49374,
       fheMul = (\<lambda>a b. a * b),
       keccak_encode = (\<lambda>cts a. foldr (\<lambda>h acc. h + acc) cts (ucast a + 1)),
       requestDecryption = (\<lambda>cts. 1),
       checkSignatures = (\<lambda>rid ct pf. pf = [1]) \<rparr>"

definition alice :: address where
  "alice = 2748"

definition bob :: address where
  "bob = 3054"

definition carol :: address where
  "carol = 4011"

definition at_time :: "address \<Rightarrow> uint256 \<Rightarrow> call" where
  "at_time a t = \<lparr> msg_sender = a, block_timestamp = t \<rparr>"

text \<open>A signature check that lets every proof pass.\<close>

definition accept_all :: "uint256 \<Rightarrow> bytes \<Rightarrow> bytes \<Rightarrow> bool" where
  "accept_all rid ct pf = True"

text \<open>A 32-byte cleartext that decodes to 400.\<close>

definition cleartext_400 :: bytes where
  "cleartext_400 = replicate 30 0 @ [1, 144]"

text \<open>
  The history used in the examples: alice deploys the contract, admits bob as a
  provider, opens batch 1; bob submits the handles 100 and 4; alice asks for the
  disclosure of the product, which the bridge files under request id 1; the callback
  for request 1 arrives with a valid proof.
\<close>

definition demo_deployed :: contract_state where
  "demo_deployed = constructor (at_time alice 0)"

definition demo_open :: contract_state where
  "demo_open =
     run [(demo_env, at_time alice 100, AddProvider bob),
          (demo_env, at_time alice 200, OpenBatch 1)] demo_deployed"

definition demo_submitted :: contract_state where
  "demo_submitted = exec demo_env (at_time bob 1000) (SubmitGrantApplication 1 100 4) demo_open"

definition demo_requested :: contract_state where
  "demo_requested =
     exec demo_env (at_time alice 1100) (CalculateAndRequestGrantAmountDecryption 1) demo_submitted"

definition demo_finalized :: contract_state where
  "demo_finalized =
     exec demo_env (at_time bob 1200) (MyCallback 1 cleartext_400 [1]) demo_requested"

text \<open>
  Two continuations in which bob submits again into batch 1 (handles 7 and 9): one
  while request 1 is still pending, one after it was finalised.
\<close>

definition demo_resubmitted :: contract_state where
  "demo_resubmitted =
     exec demo_env (at_time bob 2000) (SubmitGrantApplication 1 7 9) demo_requested"

definition demo_finalized_resubmitted :: contract_state where
  "demo_finalized_resubmitted =
     exec demo_env (at_time bob 2000) (SubmitGrantApplication 1 7 9) demo_finalized"

text \<open>
  Three more states: the contract paused by alice; the cooldown raised to the largest
  \<open>uint256\<close> after bob's submission; and a toy bridge that issues request id 2.
\<close>

definition demo_paused :: contract_state where
  "demo_paused = exec demo_env (at_time alice 300) Pause demo_open"

definition demo_long_cooldown :: contract_state where
  "demo_long_cooldown =
     exec demo_env (at_time alice 1500) (SetCooldownSeconds (- 1)) demo_submitted"

definition demo_env2 :: env where
  "demo_env2 = demo_env\<lparr> requestDecryption := (\<lambda>cts. 2) \<rparr>"

text \<open>The hash that the callback for request \<open>rid\<close> recomputes from the storage.\<close>

definition current_hash :: "env \<Rightarrow> contract_state \<Rightarrow> uint256 \<Rightarrow> bytes32" where
  "current_hash e s rid =
     keccak_encode e
       [toBytes32 (encryptedGrantAmount (applications s (batchId (decryptionContexts s rid))))]
       (this_address e)"

text \<open>
  The bridge of the call \<open>e\<close> does not hand out the request id \<open>rid\<close>; and the
  operations that ask the bridge for a request id.
\<close>

definition bridge_avoids :: "uint256 \<Rightarrow> env \<Rightarrow> bool" where
  "bridge_avoids rid e = (\<forall>cts. requestDecryption e cts \<noteq> rid)"

fun is_request :: "op \<Rightarrow> bool" where
  "is_request (CalculateAndRequestGrantAmountDecryption b) = True"
| "is_request _ = False"

text \<open>Along a sequence of calls, no request is filed under the id \<open>rid\<close>.\<close>

fun bridge_fresh_along :: "uint256 \<Rightarrow> (env \<times> call \<times> op) list \<Rightarrow> bool" where
  "bridge_fresh_along rid [] = True"
| "bridge_fresh_along rid ((e, c, x) # tr) =
     ((is_request x \<longrightarrow> bridge_avoids rid e) \<and> bridge_fresh_along rid tr)"

text \<open>
  What happens in the examples after request 1 was finalised: bob submits again, alice
  asks for a new disclosure through the bridge that issues id 2, somebody replays the
  callback for request 1, and alice pauses the contract.
\<close>

definition demo_later :: "(env \<times> call \<times> op) list" where
  "demo_later =
     [(demo_env2, at_time bob 2000, SubmitGrantApplication 1 7 9),
      (demo_env2, at_time alice 2100, CalculateAndRequestGrantAmountDecryption 1),
      (demo_env, at_time bob 2200, MyCallback 1 cleartext_400 [1]),
      (demo_env, at_time alice 2300, Pause)]"








section \<open>Properties\<close>

subsection \<open>Auxiliary facts\<close>

lemma abi_decode_cleartext_400: "abi_decode_uint256 cleartext_400 = Some 400"
  unfolding abi_decode_uint256_def cleartext_400_def by code_simp

lemmas demo_defs = demo_env_def at_time_def alice_def bob_def

lemmas op_defs = constructor_def transferOwnership_def addProvider_def removeProvider_def
  pause_def unpause_def setCooldownSeconds_def
  openBatch_def closeBatch_def submitGrantApplication_def
  calculateAndRequestGrantAmountDecryption_def myCallback_def
  onlyOwner_def onlyProvider_def whenNotPaused_def

lemmas eval_defs = op_defs checked_add_def isInitialized_def toBytes32_def exec_def Let_def

lemma demo_open_eq:
  "demo_open =
     \<lparr> owner = 2748, isProvider = (\<lambda>_. False)(2748 := True, 3054 := True),
       paused = False, cooldownSeconds = 60, lastSubmissionTime = (\<lambda>_. 0),
       lastDecryptionRequestTime = (\<lambda>_. 0),
       applications =
         (\<lambda>_. \<lparr> encryptedAmount = 0, encryptedScore = 0, encryptedGrantAmount = 0 \<rparr>),
       batchActive = (\<lambda>_. False)(1 := True),
       batchTotalEncryptedAmount = (\<lambda>_. 0), batchTotalEncryptedScore = (\<lambda>_. 0),
       decryptionContexts = (\<lambda>_. \<lparr> batchId = 0, stateHash = 0, processed = False \<rparr>),
       events = [ProviderAdded 2748, ProviderAdded 3054, BatchOpened 1] \<rparr>"
  by (simp add: demo_open_def demo_deployed_def eval_defs demo_defs)

lemma demo_submitted_eq:
  "demo_submitted =
     \<lparr> owner = 2748, isProvider = (\<lambda>_. False)(2748 := True, 3054 := True),
       paused = False, cooldownSeconds = 60,
       lastSubmissionTime = (\<lambda>_. 0)(3054 := 1000),
       lastDecryptionRequestTime = (\<lambda>_. 0),
       applications =
         (\<lambda>_. \<lparr> encryptedAmount = 0, encryptedScore = 0, encryptedGrantAmount = 0 \<rparr>)
         (1 := \<lparr> encryptedAmount = 100, encryptedScore = 4, encryptedGrantAmount = 0 \<rparr>),
       batchActive = (\<lambda>_. False)(1 := True),
       batchTotalEncryptedAmount = (\<lambda>_. 0), batchTotalEncryptedScore = (\<lambda>_. 0),
       decryptionContexts = (\<lambda>_. \<lparr> batchId = 0, stateHash = 0, processed = False \<rparr>),
       events = [ProviderAdded 2748, ProviderAdded 3054, BatchOpened 1,
                 GrantSubmitted 3054 1 100 4] \<rparr>"
  by (simp add: demo_submitted_def demo_open_eq eval_defs demo_defs)

lemma demo_requested_eq:
  "demo_requested =
     \<lparr> owner = 2748, isProvider = (\<lambda>_. False)(2748 := True, 3054 := True),
       paused = False, cooldownSeconds = 60,
       lastSubmissionTime = (\<lambda>_. 0)(3054 := 1000),
       lastDecryptionRequestTime = (\<lambda>_. 0)(2748 := 1100),
       applications =
         (\<lambda>_. \<lparr> encryptedAmount = 0, encryptedScore = 0, encryptedGrantAmount = 0 \<rparr>)
         (1 := \<lparr> encryptedAmount = 100, encryptedScore = 4, encryptedGrantAmount = 400 \<rparr>),
       batchActive = (\<lambda>_. False)(1 := True),
       batchTotalEncryptedAmount = (\<lambda>_. 0), batchTotalEncryptedScore = (\<lambda>_. 0),
       decryptionContexts =
         (\<lambda>_. \<lparr> batchId = 0, stateHash = 0, processed = False \<rparr>)
         (1 := \<lparr> batchId = 1, stateHash = 49775, processed = False \<rparr>),
       events = [ProviderAdded 2748, ProviderAdded 3054, BatchOpened 1,
                 GrantSubmitted 3054 1 100 4, DecryptionRequested 1 1 49775] \<rparr>"
  by (simp add: demo_requested_def demo_submitted_eq eval_defs demo_defs)

lemma demo_finalized_eq:
  "demo_finalized =
     \<lparr> owner = 2748, isProvider = (\<lambda>_. False)(2748 := True, 3054 := True),
       paused = False, cooldownSeconds = 60,
       lastSubmissionTime = (\<lambda>_. 0)(3054 := 1000),
       lastDecryptionRequestTime = (\<lambda>_. 0)(2748 := 1100),
       applications =
         (\<lambda>_. \<lparr> encryptedAmount = 0, encryptedScore = 0, encryptedGrantAmount = 0 \<rparr>)
         (1 := \<lparr> encryptedAmount = 100, encryptedScore = 4, encryptedGrantAmount = 400 \<rparr>),
       batchActive = (\<lambda>_. False)(1 := True),
       batchTotalEncryptedAmount = (\<lambda>_. 0), batchTotalEncryptedScore = (\<lambda>_. 0),
       decryptionContexts =
         (\<lambda>_. \<lparr> batchId = 0, stateHash = 0, processed = False \<rparr>)
         (1 := \<lparr> batchId = 1, stateHash = 49775, processed = True \<rparr>),
       events = [ProviderAdded 2748, ProviderAdded 3054, BatchOpened 1,
                 GrantSubmitted 3054 1 100 4, DecryptionRequested 1 1 49775,
                 DecryptionCompleted 1 1 0 0 400] \<rparr>"
  by (simp add: demo_finalized_def demo_requested_eq eval_defs demo_defs abi_decode_cleartext_400)

lemma cooldown_elapsed_checked_add:
  assumes "cooldown_elapsed p cd now"
  shows "checked_add p cd = Some (p + cd)" and "\<not> now < p + cd"
proof -
  have bound: "unat p + unat cd < 2 ^ 256"
    using assms unsigned_less [of now, where ?'a = nat] by (simp add: cooldown_elapsed_def)
  then show "checked_add p cd = Some (p + cd)"
    by (simp add: checked_add_def)
  have "unat (p + cd) = unat p + unat cd"
    using bound by (simp add: unat_add_lem [THEN iffD1])
  then show "\<not> now < p + cd"
    using assms by (simp add: cooldown_elapsed_def word_less_nat_alt)
qed

lemma checked_add_Some_less:
  assumes "checked_add p cd = Some l"
  shows "(now < l) = (\<not> cooldown_elapsed p cd now)"
proof -
  have bound: "unat p + unat cd < 2 ^ 256" and l: "l = p + cd"
    using assms by (auto simp: checked_add_def split: if_splits)
  have "unat (p + cd) = unat p + unat cd"
    using bound by (simp add: unat_add_lem [THEN iffD1])
  then show ?thesis
    by (auto simp: l cooldown_elapsed_def word_less_nat_alt)
qed

lemma checked_add_None_not_elapsed:
  assumes "checked_add p cd = None"
  shows "\<not> cooldown_elapsed p cd now"
proof
  assume "cooldown_elapsed p cd now"
  then have "checked_add p cd = Some (p + cd)" by (rule cooldown_elapsed_checked_add)
  with assms show False by simp
qed

lemma demo_resubmitted_eq:
  "demo_resubmitted =
     \<lparr> owner = 2748, isProvider = (\<lambda>_. False)(2748 := True, 3054 := True),
       paused = False, cooldownSeconds = 60,
       lastSubmissionTime = (\<lambda>_. 0)(3054 := 2000),
       lastDecryptionRequestTime = (\<lambda>_. 0)(2748 := 1100),
       applications =
         (\<lambda>_. \<lparr> encryptedAmount = 0, encryptedScore = 0, encryptedGrantAmount = 0 \<rparr>)
         (1 := \<lparr> encryptedAmount = 7, encryptedScore = 9, encryptedGrantAmount = 0 \<rparr>),
       batchActive = (\<lambda>_. False)(1 := True),
       batchTotalEncryptedAmount = (\<lambda>_. 0), batchTotalEncryptedScore = (\<lambda>_. 0),
       decryptionContexts =
         (\<lambda>_. \<lparr> batchId = 0, stateHash = 0, processed = False \<rparr>)
         (1 := \<lparr> batchId = 1, stateHash = 49775, processed = False \<rparr>),
       events = [ProviderAdded 2748, ProviderAdded 3054, BatchOpened 1,
                 GrantSubmitted 3054 1 100 4, DecryptionRequested 1 1 49775,
                 GrantSubmitted 3054 1 7 9] \<rparr>"
  by (simp add: demo_resubmitted_def demo_requested_eq eval_defs demo_defs)

lemma demo_finalized_resubmitted_eq:
  "demo_finalized_resubmitted =
     \<lparr> owner = 2748, isProvider = (\<lambda>_. False)(2748 := True, 3054 := True),
       paused = False, cooldownSeconds = 60,
       lastSubmissionTime = (\<lambda>_. 0)(3054 := 2000),
       lastDecryptionRequestTime = (\<lambda>_. 0)(2748 := 1100),
       applications =
         (\<lambda>_. \<lparr> encryptedAmount = 0, encryptedScore = 0, encryptedGrantAmount = 0 \<rparr>)
         (1 := \<lparr> encryptedAmount = 7, encryptedScore = 9, encryptedGrantAmount = 0 \<rparr>),
       batchActive = (\<lambda>_. False)(1 := True),
       batchTotalEncryptedAmount = (\<lambda>_. 0), batchTotalEncryptedScore = (\<lambda>_. 0),
       decryptionContexts =
         (\<lambda>_. \<lparr> batchId = 0, stateHash = 0, processed = False \<rparr>)
         (1 := \<lparr> batchId = 1, stateHash = 49775, processed = True \<rparr>),
       events = [ProviderAdded 2748, ProviderAdded 3054, BatchOpened 1,
                 GrantSubmitted 3054 1 100 4, DecryptionRequested 1 1 49775,
                 DecryptionCompleted 1 1 0 0 400, GrantSubmitted 3054 1 7 9] \<rparr>"
  by (simp add: demo_finalized_resubmitted_def demo_finalized_eq eval_defs demo_defs)

lemma demo_paused_eq:
  "demo_paused =
     \<lparr> owner = 2748, isProvider = (\<lambda>_. False)(2748 := True, 3054 := True),
       paused = True, cooldownSeconds = 60, lastSubmissionTime = (\<lambda>_. 0),
       lastDecryptionRequestTime = (\<lambda>_. 0),
       applications =
         (\<lambda>_. \<lparr> encryptedAmount = 0, encryptedScore = 0, encryptedGrantAmount = 0 \<rparr>),
       batchActive = (\<lambda>_. False)(1 := True),
       batchTotalEncryptedAmount = (\<lambda>_. 0), batchTotalEncryptedScore = (\<lambda>_. 0),
       decryptionContexts = (\<lambda>_. \<lparr> batchId = 0, stateHash = 0, processed = False \<rparr>),
       events = [ProviderAdded 2748, ProviderAdded 3054, BatchOpened 1, Paused 2748] \<rparr>"
  by (simp add: demo_paused_def demo_open_eq eval_defs demo_defs)

lemma demo_long_cooldown_eq:
  "demo_long_cooldown =
     \<lparr> owner = 2748, isProvider = (\<lambda>_. False)(2748 := True, 3054 := True),
       paused = False, cooldownSeconds = - 1,
       lastSubmissionTime = (\<lambda>_. 0)(3054 := 1000),
       lastDecryptionRequestTime = (\<lambda>_. 0),
       applications =
         (\<lambda>_. \<lparr> encryptedAmount = 0, encryptedScore = 0, encryptedGrantAmount = 0 \<rparr>)
         (1 := \<lparr> encryptedAmount = 100, encryptedScore = 4, encryptedGrantAmount = 0 \<rparr>),
       batchActive = (\<lambda>_. False)(1 := True),
       batchTotalEncryptedAmount = (\<lambda>_. 0), batchTotalEncryptedScore = (\<lambda>_. 0),
       decryptionContexts = (\<lambda>_. \<lparr> batchId = 0, stateHash = 0, processed = False \<rparr>),
       events = [ProviderAdded 2748, ProviderAdded 3054, BatchOpened 1,
                 GrantSubmitted 3054 1 100 4, CooldownSecondsSet 60 (- 1)] \<rparr>"
  by (simp add: demo_long_cooldown_def demo_submitted_eq eval_defs demo_defs)

lemma unat_max_uint256: "unat (- 1 :: uint256) = 2 ^ 256 - 1"
  by (simp add: unsigned_minus_1_eq_mask mask_eq_exp_minus_1)

text \<open>
  \<open>submitGrantApplication\<close> as one chain of tests, with the cooldown test phrased
  through \<open>cooldown_elapsed\<close>.
\<close>

lemma submitGrantApplication_cases:
  "submitGrantApplication c b x y s =
     (if \<not> isProvider s (msg_sender c) then Inl NotProvider
      else if paused s then Inl PausedError
      else if \<not> batchActive s b then Inl BatchNotActive
      else if \<not> unat (lastSubmissionTime s (msg_sender c)) + unat (cooldownSeconds s) < 2 ^ 256
        then Inl Panic
      else if \<not> cooldown_elapsed (lastSubmissionTime s (msg_sender c)) (cooldownSeconds s)
                 (block_timestamp c)
        then Inl CooldownActive
      else Inr (s\<lparr> lastSubmissionTime :=
                     (lastSubmissionTime s)(msg_sender c := block_timestamp c),
                   applications :=
                     (applications s)
                       (b := \<lparr> encryptedAmount = x, encryptedScore = y,
                               encryptedGrantAmount = 0 \<rparr>),
                   events := events s @ [GrantSubmitted (msg_sender c) b x y] \<rparr>))"
proof (cases "checked_add (lastSubmissionTime s (msg_sender c)) (cooldownSeconds s)")
  case None
  then show ?thesis
    by (auto simp: submitGrantApplication_def onlyProvider_def whenNotPaused_def checked_add_def
          split: if_splits)
next
  case (Some l)
  then have "unat (lastSubmissionTime s (msg_sender c)) + unat (cooldownSeconds s) < 2 ^ 256"
    by (auto simp: checked_add_def split: if_splits)
  with checked_add_Some_less [OF Some, of "block_timestamp c"] Some show ?thesis
    by (simp add: submitGrantApplication_def onlyProvider_def whenNotPaused_def)
qed

lemma overflow_not_elapsed:
  "\<not> unat p + unat cd < 2 ^ 256 \<Longrightarrow> \<not> cooldown_elapsed p cd (now :: uint256)"
  using unsigned_less [of now, where ?'a = nat] by (simp add: cooldown_elapsed_def)



subsection \<open>The callback\<close>

text \<open>
  Claim C7 (order of the callback's checks).  When several grounds for rejection hold
  at once, \<open>myCallback\<close> reports them in a fixed order.  A context that is already
  processed gives \<open>ReplayAttempt\<close>, whatever the hash and the proof are.  A context
  that is not processed and whose recomputed hash differs from the stored one gives
  \<open>StateMismatch\<close>, whatever the signature check would answer (the result is the same
  for every check function \<open>chk\<close>, so the check is not consulted).  Only when both
  pass does an invalid proof give \<open>DecryptionFailed\<close>.  All of this holds for every
  cleartext and proof argument.
\<close>

theorem callback_check_order:
  "(processed (decryptionContexts s rid) \<longrightarrow>
      myCallback e c rid ct pf s = Inl ReplayAttempt) \<and>
   (\<not> processed (decryptionContexts s rid) \<and> current_hash e s rid \<noteq> stateHash (decryptionContexts s rid) \<longrightarrow>
      myCallback (e\<lparr>checkSignatures := chk\<rparr>) c rid ct pf s = Inl StateMismatch) \<and>
   (\<not> processed (decryptionContexts s rid) \<and> current_hash e s rid = stateHash (decryptionContexts s rid) \<and>
    \<not> checkSignatures e rid ct pf \<longrightarrow>
      myCallback e c rid ct pf s = Inl DecryptionFailed)"
  by (simp add: myCallback_def current_hash_def Let_def)

theorem callback_check_order_witness:
  "(processed (decryptionContexts demo_finalized_resubmitted 1) \<and>
    current_hash demo_env demo_finalized_resubmitted 1
      \<noteq> stateHash (decryptionContexts demo_finalized_resubmitted 1) \<and>
    \<not> checkSignatures demo_env 1 [] [] \<and>
    myCallback demo_env (at_time bob 3000) 1 [] [] demo_finalized_resubmitted = Inl ReplayAttempt) \<and>
   (\<not> processed (decryptionContexts demo_resubmitted 1) \<and>
    current_hash demo_env demo_resubmitted 1 \<noteq> stateHash (decryptionContexts demo_resubmitted 1) \<and>
    myCallback (demo_env\<lparr>checkSignatures := accept_all\<rparr>) (at_time bob 3000) 1
      cleartext_400 [1] demo_resubmitted = Inl StateMismatch) \<and>
   (\<not> processed (decryptionContexts demo_requested 1) \<and>
    current_hash demo_env demo_requested 1 = stateHash (decryptionContexts demo_requested 1) \<and>
    \<not> checkSignatures demo_env 1 cleartext_400 [] \<and>
    myCallback demo_env (at_time bob 3000) 1 cleartext_400 [] demo_requested = Inl DecryptionFailed)"
proof -
  have p1: "processed (decryptionContexts demo_finalized_resubmitted 1)"
    by (simp add: demo_finalized_resubmitted_eq)
  have h1: "current_hash demo_env demo_finalized_resubmitted 1
      \<noteq> stateHash (decryptionContexts demo_finalized_resubmitted 1)"
    by (simp add: demo_finalized_resubmitted_eq current_hash_def toBytes32_def demo_env_def)
  have p2: "\<not> processed (decryptionContexts demo_resubmitted 1)"
    by (simp add: demo_resubmitted_eq)
  have h2: "current_hash demo_env demo_resubmitted 1
      \<noteq> stateHash (decryptionContexts demo_resubmitted 1)"
    by (simp add: demo_resubmitted_eq current_hash_def toBytes32_def demo_env_def)
  have p3: "\<not> processed (decryptionContexts demo_requested 1)"
    by (simp add: demo_requested_eq)
  have h3: "current_hash demo_env demo_requested 1
      = stateHash (decryptionContexts demo_requested 1)"
    by (simp add: demo_requested_eq current_hash_def toBytes32_def demo_env_def)
  have c1: "\<not> checkSignatures demo_env 1 [] []" and c3: "\<not> checkSignatures demo_env 1 cleartext_400 []"
    by (simp_all add: demo_env_def)
  show ?thesis
    using p1 h1 p2 h2 p3 h3 c1 c3
      callback_check_order [where s = demo_finalized_resubmitted and rid = 1 and e = demo_env
                              and c = "at_time bob 3000" and ct = "[]" and pf = "[]"]
      callback_check_order [where s = demo_resubmitted and rid = 1 and e = demo_env
                              and c = "at_time bob 3000" and ct = cleartext_400 and pf = "[1]"
                              and chk = accept_all]
      callback_check_order [where s = demo_requested and rid = 1 and e = demo_env
                              and c = "at_time bob 3000" and ct = cleartext_400 and pf = "[]"]
    by simp
qed

text \<open>
  Claim C9 (the callback does not look at its caller).  \<open>myCallback\<close> checks no
  authorisation: from the same state and with the same request id, cleartexts and
  proof, any two calls have the same outcome, the same error or the same resulting
  state, whoever sends them (and whenever).  So an address that is neither the bridge
  nor the owner can finalise a request; the example shows alice and bob reaching the
  same final state.
\<close>

theorem callback_caller_independent:
  "myCallback e c rid ct pf s = myCallback e c' rid ct pf s"
  by (simp add: myCallback_def)


theorem callback_caller_independent_witness:
  "myCallback demo_env (at_time alice 1200) 1 cleartext_400 [1] demo_requested = Inr demo_finalized \<and>
   myCallback demo_env (at_time bob 1200) 1 cleartext_400 [1] demo_requested = Inr demo_finalized \<and>
   owner demo_requested \<noteq> bob"
  using callback_caller_independent
          [of demo_env "at_time alice 1200" 1 cleartext_400 "[1]" demo_requested "at_time bob 1200"]
  by (simp add: demo_finalized_eq demo_requested_eq myCallback_def toBytes32_def demo_defs
        abi_decode_cleartext_400)

text \<open>
  Claim C10 (frame of the callback).  A \<open>myCallback\<close> that returns changes one thing
  in the storage, the \<open>processed\<close> flag of the context of its request id, which goes
  from false to true, and appends one \<open>DecryptionCompleted\<close> event to the log.  The
  owner, the provider allowlist, the pause flag, the cooldown, the open or closed state
  of every batch, every application's handles, every last-action timestamp, and every
  other decryption context are as before; so are the batch id and the state hash of
  the context itself.
\<close>

theorem callback_frame:
  "myCallback e c rid ct pf s = Inr s' \<Longrightarrow>
     owner s' = owner s \<and>
     isProvider s' = isProvider s \<and>
     paused s' = paused s \<and>
     cooldownSeconds s' = cooldownSeconds s \<and>
     batchActive s' = batchActive s \<and>
     applications s' = applications s \<and>
     lastSubmissionTime s' = lastSubmissionTime s \<and>
     lastDecryptionRequestTime s' = lastDecryptionRequestTime s \<and>
     batchTotalEncryptedAmount s' = batchTotalEncryptedAmount s \<and>
     batchTotalEncryptedScore s' = batchTotalEncryptedScore s \<and>
     (\<forall>r. r \<noteq> rid \<longrightarrow> decryptionContexts s' r = decryptionContexts s r) \<and>
     batchId (decryptionContexts s' rid) = batchId (decryptionContexts s rid) \<and>
     stateHash (decryptionContexts s' rid) = stateHash (decryptionContexts s rid) \<and>
     \<not> processed (decryptionContexts s rid) \<and>
     processed (decryptionContexts s' rid) \<and>
     (\<exists>g. abi_decode_uint256 ct = Some g \<and>
          events s' = events s @
            [DecryptionCompleted rid (batchId (decryptionContexts s rid)) 0 0 g])"
  by (auto simp: myCallback_def Let_def split: if_splits option.splits)

theorem callback_frame_witness:
  "myCallback demo_env (at_time bob 1200) 1 cleartext_400 [1] demo_requested = Inr demo_finalized \<and>
   owner demo_finalized = owner demo_requested \<and>
   isProvider demo_finalized = isProvider demo_requested \<and>
   paused demo_finalized = paused demo_requested \<and>
   cooldownSeconds demo_finalized = cooldownSeconds demo_requested \<and>
   batchActive demo_finalized = batchActive demo_requested \<and>
   applications demo_finalized = applications demo_requested \<and>
   lastSubmissionTime demo_finalized = lastSubmissionTime demo_requested \<and>
   lastDecryptionRequestTime demo_finalized = lastDecryptionRequestTime demo_requested \<and>
   decryptionContexts demo_finalized 0 = decryptionContexts demo_requested 0 \<and>
   \<not> processed (decryptionContexts demo_requested 1) \<and>
   processed (decryptionContexts demo_finalized 1) \<and>
   events demo_finalized = events demo_requested @ [DecryptionCompleted 1 1 0 0 400]"
proof -
  have run: "myCallback demo_env (at_time bob 1200) 1 cleartext_400 [1] demo_requested
               = Inr demo_finalized"
    by (simp add: demo_finalized_eq demo_requested_eq myCallback_def toBytes32_def demo_defs
          abi_decode_cleartext_400)
  from callback_frame [OF run] run show ?thesis
    by (simp add: abi_decode_cleartext_400 demo_requested_eq)
qed

subsection \<open>Derivation and disclosure request\<close>

text \<open>
  Claim C4 (what the derivation with request does).  Let the owner call
  \<open>calculateAndRequestGrantAmountDecryption\<close> for batch \<open>b\<close> while the contract is
  not paused and the owner's request cooldown has elapsed.  If the batch's encrypted
  amount or its encrypted score is not initialised, the call fails with
  \<open>InvalidBatch\<close>.  Otherwise it returns; the batch's \<open>encryptedGrantAmount\<close> is
  then the homomorphic product of amount and score, which are kept; the state hash is
  the hash of the serialised product handle together with the contract address; the
  context \<open>(b, state hash, processed = false)\<close> is stored under the request id that
  the bridge returned for that handle; and a \<open>DecryptionRequested\<close> event with the
  request id, the batch and the hash is logged.
\<close>

theorem derive_and_request_post:
  assumes "msg_sender c = owner s"
    and "\<not> paused s"
    and "cooldown_elapsed (lastDecryptionRequestTime s (msg_sender c)) (cooldownSeconds s)
           (block_timestamp c)"
  shows "(\<not> isInitialized (encryptedAmount (applications s b)) \<or>
          \<not> isInitialized (encryptedScore (applications s b)) \<longrightarrow>
            calculateAndRequestGrantAmountDecryption e c b s = Inl InvalidBatch) \<and>
         (isInitialized (encryptedAmount (applications s b)) \<and>
          isInitialized (encryptedScore (applications s b)) \<longrightarrow>
            (\<exists>s'. calculateAndRequestGrantAmountDecryption e c b s = Inr s' \<and>
               encryptedAmount (applications s' b) = encryptedAmount (applications s b) \<and>
               encryptedScore (applications s' b) = encryptedScore (applications s b) \<and>
               encryptedGrantAmount (applications s' b) =
                 fheMul e (encryptedAmount (applications s b)) (encryptedScore (applications s b)) \<and>
               decryptionContexts s'
                   (requestDecryption e [toBytes32 (encryptedGrantAmount (applications s' b))]) =
                 \<lparr> batchId = b,
                   stateHash =
                     keccak_encode e [toBytes32 (encryptedGrantAmount (applications s' b))]
                       (this_address e),
                   processed = False \<rparr> \<and>
               events s' = events s @
                 [DecryptionRequested
                    (requestDecryption e [toBytes32 (encryptedGrantAmount (applications s' b))]) b
                    (keccak_encode e [toBytes32 (encryptedGrantAmount (applications s' b))]
                       (this_address e))]))"
  using assms cooldown_elapsed_checked_add [OF assms(3)]
  by (simp add: calculateAndRequestGrantAmountDecryption_def onlyOwner_def whenNotPaused_def
        Let_def)

theorem derive_and_request_post_witness:
  "msg_sender (at_time alice 1100) = owner demo_submitted \<and>
   \<not> paused demo_submitted \<and>
   cooldown_elapsed (lastDecryptionRequestTime demo_submitted (msg_sender (at_time alice 1100)))
     (cooldownSeconds demo_submitted) (block_timestamp (at_time alice 1100)) \<and>
   isInitialized (encryptedAmount (applications demo_submitted 1)) \<and>
   isInitialized (encryptedScore (applications demo_submitted 1)) \<and>
   calculateAndRequestGrantAmountDecryption demo_env (at_time alice 1100) 1 demo_submitted
     = Inr demo_requested \<and>
   encryptedGrantAmount (applications demo_requested 1) = fheMul demo_env 100 4 \<and>
   \<not> isInitialized (encryptedAmount (applications demo_open 1)) \<and>
   calculateAndRequestGrantAmountDecryption demo_env (at_time alice 1100) 1 demo_open
     = Inl InvalidBatch"
proof -
  have a: "msg_sender (at_time alice 1100) = owner demo_submitted"
          "msg_sender (at_time alice 1100) = owner demo_open"
    by (simp_all add: demo_submitted_eq demo_open_eq demo_defs)
  have p: "\<not> paused demo_submitted" "\<not> paused demo_open"
    by (simp_all add: demo_submitted_eq demo_open_eq)
  have cd: "cooldown_elapsed (lastDecryptionRequestTime demo_submitted (msg_sender (at_time alice 1100)))
              (cooldownSeconds demo_submitted) (block_timestamp (at_time alice 1100))"
           "cooldown_elapsed (lastDecryptionRequestTime demo_open (msg_sender (at_time alice 1100)))
              (cooldownSeconds demo_open) (block_timestamp (at_time alice 1100))"
    by (simp_all add: demo_submitted_eq demo_open_eq demo_defs cooldown_elapsed_def)
  have i: "isInitialized (encryptedAmount (applications demo_submitted 1))"
          "isInitialized (encryptedScore (applications demo_submitted 1))"
    by (simp_all add: demo_submitted_eq isInitialized_def)
  have n: "\<not> isInitialized (encryptedAmount (applications demo_open 1))"
    by (simp add: demo_open_eq isInitialized_def)
  have r: "calculateAndRequestGrantAmountDecryption demo_env (at_time alice 1100) 1 demo_submitted
     = Inr demo_requested"
    by (simp add: demo_requested_eq demo_submitted_eq eval_defs demo_defs)
  have t1: "calculateAndRequestGrantAmountDecryption demo_env (at_time alice 1100) 1 demo_open
     = Inl InvalidBatch"
    using derive_and_request_post [OF a(2) p(2) cd(2), of 1 demo_env] n by blast
  have t2: "encryptedGrantAmount (applications demo_requested 1) = fheMul demo_env 100 4"
  proof -
    from derive_and_request_post [OF a(1) p(1) cd(1), of 1 demo_env] i
    obtain s' where
      "calculateAndRequestGrantAmountDecryption demo_env (at_time alice 1100) 1 demo_submitted
         = Inr s'"
      and g: "encryptedGrantAmount (applications s' 1) =
         fheMul demo_env (encryptedAmount (applications demo_submitted 1))
           (encryptedScore (applications demo_submitted 1))"
      by blast
    with r have "s' = demo_requested" by simp
    with g show ?thesis by (simp add: demo_submitted_eq)
  qed
  from a(1) p(1) cd(1) i n r t1 t2 show ?thesis by blast
qed

subsection \<open>Request ids without a context\<close>

text \<open>
  The contract declares no error for an unknown request id, and \<open>myCallback\<close> does not
  look the id up: it reads the mapping, which answers a never-written key with the zero
  context (batch 0, state hash 0, not processed).  No failure of \<open>myCallback\<close> is one
  that the specification calls \<open>UnknownRequest\<close>.
\<close>

lemma spec_name_myCallback:
  "myCallback e c rid ct pf s = Inl err \<Longrightarrow> spec_name err \<noteq> Some Spec_UnknownRequest"
  by (auto simp: myCallback_def Let_def split: if_splits option.splits)

text \<open>
  Claim C3, as stated, fails.  In the freshly deployed contract nothing was ever stored
  under request id 7, and the callback for it fails with \<open>StateMismatch\<close>, which is
  not the failure \<open>UnknownRequest\<close>.
\<close>

theorem unknown_request_counterexample:
  "decryptionContexts demo_deployed 7 = no_context \<and>
   myCallback demo_env (at_time bob 1000) 7 cleartext_400 [1] demo_deployed = Inl StateMismatch \<and>
   \<not> fails_with Spec_UnknownRequest
        (myCallback demo_env (at_time bob 1000) 7 cleartext_400 [1] demo_deployed)"
  by (simp add: demo_deployed_def constructor_def no_context_def myCallback_def toBytes32_def
        demo_defs fails_with_def)

text \<open>
  Claim C3, amended.  For every request id under which no context is stored (it reads
  as the zero context), and for all cleartext and proof arguments, the callback never
  fails with \<open>UnknownRequest\<close>; it compares the hash of batch 0's current grant-amount
  handle with the stored hash 0 and fails with \<open>StateMismatch\<close> whenever that hash
  is not zero.
\<close>

theorem unknown_request_state_mismatch:
  "decryptionContexts s rid = no_context \<Longrightarrow>
     \<not> fails_with Spec_UnknownRequest (myCallback e c rid ct pf s) \<and>
     (keccak_encode e [toBytes32 (encryptedGrantAmount (applications s 0))] (this_address e) \<noteq> 0
        \<longrightarrow> myCallback e c rid ct pf s = Inl StateMismatch)"
  by (auto simp: fails_with_def no_context_def myCallback_def Let_def dest: spec_name_myCallback
        split: sum.splits option.splits)

theorem unknown_request_state_mismatch_witness:
  "decryptionContexts demo_requested 7 = no_context \<and>
   keccak_encode demo_env [toBytes32 (encryptedGrantAmount (applications demo_requested 0))]
     (this_address demo_env) \<noteq> 0 \<and>
   \<not> fails_with Spec_UnknownRequest
        (myCallback demo_env (at_time bob 1200) 7 cleartext_400 [1] demo_requested) \<and>
   myCallback demo_env (at_time bob 1200) 7 cleartext_400 [1] demo_requested = Inl StateMismatch"
proof -
  have n: "decryptionContexts demo_requested 7 = no_context"
    by (simp add: demo_requested_eq no_context_def)
  have h: "keccak_encode demo_env [toBytes32 (encryptedGrantAmount (applications demo_requested 0))]
     (this_address demo_env) \<noteq> 0"
    by (simp add: demo_requested_eq demo_env_def toBytes32_def)
  from unknown_request_state_mismatch [OF n, of demo_env "at_time bob 1200" cleartext_400 "[1]"] n h
  show ?thesis by blast
qed

subsection \<open>Exactly-once finalisation\<close>

text \<open>
  The \<open>processed\<close> flag of a context survives every operation that returns, as long
  as a disclosure request is not filed under the same request id again: the request
  operation stores a fresh context, with \<open>processed = false\<close>, under whatever id
  the bridge returns, and the bridge is trusted to return an id it has not used.
\<close>

lemma step_keeps_processed:
  assumes "processed (decryptionContexts s rid)"
    and "step e c x s = Inr s'"
    and "is_request x \<longrightarrow> bridge_avoids rid e"
  shows "processed (decryptionContexts s' rid)"
proof (cases x)
  case (CalculateAndRequestGrantAmountDecryption b)
  from assms(2) CalculateAndRequestGrantAmountDecryption obtain cts ctx where
    "decryptionContexts s' = (decryptionContexts s)(requestDecryption e cts := ctx)"
    by (auto simp: calculateAndRequestGrantAmountDecryption_def onlyOwner_def whenNotPaused_def
          Let_def split: if_splits option.splits)
  moreover from assms(3) CalculateAndRequestGrantAmountDecryption
  have "requestDecryption e cts \<noteq> rid"
    by (simp add: bridge_avoids_def)
  ultimately show ?thesis using assms(1) by simp
next
  case (MyCallback r ct pf)
  with assms(1,2) show ?thesis
    by (auto simp: myCallback_def Let_def split: if_splits option.splits)
qed (use assms(1,2) in \<open>auto simp: op_defs Let_def split: if_splits option.splits\<close>)

lemma exec_keeps_processed:
  assumes "processed (decryptionContexts s rid)"
    and "is_request x \<longrightarrow> bridge_avoids rid e"
  shows "processed (decryptionContexts (exec e c x s) rid)"
proof (cases "step e c x s")
  case (Inl err)
  with assms(1) show ?thesis by (simp add: exec_def)
next
  case (Inr s')
  with step_keeps_processed [OF assms(1) Inr assms(2)] show ?thesis by (simp add: exec_def)
qed

lemma run_keeps_processed:
  "processed (decryptionContexts s rid) \<Longrightarrow> bridge_fresh_along rid tr \<Longrightarrow>
   processed (decryptionContexts (run tr s) rid)"
proof (induction tr arbitrary: s)
  case Nil
  then show ?case by simp
next
  case (Cons t tr)
  obtain e c x where t: "t = (e, c, x)" by (cases t)
  from Cons.prems t have "processed (decryptionContexts (exec e c x s) rid)"
    by (intro exec_keeps_processed) auto
  with Cons.IH [of "exec e c x s"] Cons.prems(2) t show ?case by simp
qed

text \<open>
  Claim C1 (exactly-once finalisation).  Let the context of request id \<open>rid\<close> be
  processed, and let any sequence \<open>tr\<close> of calls follow, by any callers at any
  times, in which the bridge never hands out \<open>rid\<close> again.  Then the context of
  \<open>rid\<close> is still processed after the whole sequence, and a callback for \<open>rid\<close>
  fails with \<open>ReplayAttempt\<close>, for every caller, cleartext and proof.  With the empty
  sequence this is the replay right after the finalising callback.
\<close>

theorem finalized_exactly_once:
  assumes "processed (decryptionContexts s rid)"
    and "bridge_fresh_along rid tr"
  shows "processed (decryptionContexts (run tr s) rid) \<and>
         myCallback e' c' rid ct pf (run tr s) = Inl ReplayAttempt"
proof -
  have "processed (decryptionContexts (run tr s) rid)"
    using assms by (rule run_keeps_processed)
  then show ?thesis by (simp add: myCallback_def)
qed

theorem finalized_exactly_once_witness:
  "processed (decryptionContexts demo_finalized 1) \<and>
   bridge_fresh_along 1 demo_later \<and>
   processed (decryptionContexts (run demo_later demo_finalized) 1) \<and>
   myCallback demo_env (at_time bob 3000) 1 cleartext_400 [1] (run demo_later demo_finalized)
     = Inl ReplayAttempt"
proof -
  have p: "processed (decryptionContexts demo_finalized 1)"
    by (simp add: demo_finalized_eq)
  have b: "bridge_fresh_along 1 demo_later"
    by (simp add: demo_later_def bridge_avoids_def demo_env2_def)
  from finalized_exactly_once [OF p b, of demo_env "at_time bob 3000" cleartext_400 "[1]"] p b
  show ?thesis by blast
qed

text \<open>
  The assumption on the bridge is needed: were the bridge to hand out request id 1 a
  second time, the new request would store an unprocessed context under it.
\<close>

lemma reissued_id_overwrites_context:
  "processed (decryptionContexts demo_finalized_resubmitted 1) \<and>
   \<not> processed (decryptionContexts
       (exec demo_env (at_time alice 2100) (CalculateAndRequestGrantAmountDecryption 1)
          demo_finalized_resubmitted) 1)"
  by (simp add: demo_finalized_resubmitted_eq eval_defs demo_defs)

subsection \<open>State binding\<close>








subsection \<open>Submission\<close>

text \<open>
  The cooldown test adds the caller's last submission time and the cooldown with
  checked arithmetic.  After bob's submission at time 1000 the owner can set the
  cooldown to the largest \<open>uint256\<close>; the sum then exceeds the range of \<open>uint256\<close>.
\<close>

text \<open>
  Claim C5, as stated, fails.  With the cooldown at its largest value, bob (an allowed
  provider, contract not paused, batch 1 open) submits at time 2000 before his cooldown
  has elapsed: the call reverts with the arithmetic panic of the checked addition, not
  with \<open>CooldownActive\<close>.
\<close>

theorem submit_cooldown_error_counterexample:
  "isProvider demo_long_cooldown bob \<and>
   \<not> paused demo_long_cooldown \<and>
   batchActive demo_long_cooldown 1 \<and>
   \<not> cooldown_elapsed (lastSubmissionTime demo_long_cooldown bob)
        (cooldownSeconds demo_long_cooldown) 2000 \<and>
   submitGrantApplication (at_time bob 2000) 1 7 9 demo_long_cooldown = Inl Panic \<and>
   \<not> fails_with Spec_CooldownActive
        (submitGrantApplication (at_time bob 2000) 1 7 9 demo_long_cooldown)"
  by (simp add: demo_long_cooldown_eq submitGrantApplication_def onlyProvider_def
        whenNotPaused_def checked_add_def cooldown_elapsed_def fails_with_def demo_defs
        unat_max_uint256)

text \<open>
  Claim C5, amended.  For every batch \<open>b\<close>, caller and time,
  \<open>submitGrantApplication\<close> returns if and only if \<open>b\<close> is open, the caller is an
  allowed provider, the contract is not paused and the caller's submission cooldown
  has elapsed.  The failures surface in this order: \<open>NotProvider\<close> for a caller that
  is not allowed; else \<open>PausedError\<close> when paused; else \<open>BatchNotActive\<close> when
  the batch is not open; else, the cooldown not having elapsed, \<open>CooldownActive\<close>
  provided last submission time plus cooldown fits into a \<open>uint256\<close>, and the
  arithmetic panic when it does not.  Every failure leaves the whole state as it was.
  When the call returns, the batch's application holds the two submitted handles, its
  grant-amount handle is the uninitialised handle, and the caller's last submission
  time is the time of the call.
\<close>

theorem submit_iff_and_atomic:
  "((\<exists>s'. submitGrantApplication c b x y s = Inr s') \<longleftrightarrow>
      batchActive s b \<and> isProvider s (msg_sender c) \<and> \<not> paused s \<and>
      cooldown_elapsed (lastSubmissionTime s (msg_sender c)) (cooldownSeconds s)
        (block_timestamp c)) \<and>
   (\<not> isProvider s (msg_sender c) \<longrightarrow>
      submitGrantApplication c b x y s = Inl NotProvider) \<and>
   (isProvider s (msg_sender c) \<and> paused s \<longrightarrow>
      submitGrantApplication c b x y s = Inl PausedError) \<and>
   (isProvider s (msg_sender c) \<and> \<not> paused s \<and> \<not> batchActive s b \<longrightarrow>
      submitGrantApplication c b x y s = Inl BatchNotActive) \<and>
   (isProvider s (msg_sender c) \<and> \<not> paused s \<and> batchActive s b \<and>
    \<not> cooldown_elapsed (lastSubmissionTime s (msg_sender c)) (cooldownSeconds s)
        (block_timestamp c) \<longrightarrow>
      submitGrantApplication c b x y s =
        (if unat (lastSubmissionTime s (msg_sender c)) + unat (cooldownSeconds s) < 2 ^ 256
         then Inl CooldownActive else Inl Panic)) \<and>
   (\<forall>err. submitGrantApplication c b x y s = Inl err \<longrightarrow>
      exec e c (SubmitGrantApplication b x y) s = s) \<and>
   (\<forall>s'. submitGrantApplication c b x y s = Inr s' \<longrightarrow>
      exec e c (SubmitGrantApplication b x y) s = s' \<and>
      applications s' b =
        \<lparr> encryptedAmount = x, encryptedScore = y, encryptedGrantAmount = 0 \<rparr> \<and>
      \<not> isInitialized (encryptedGrantAmount (applications s' b)) \<and>
      lastSubmissionTime s' (msg_sender c) = block_timestamp c)"
proof -
  let ?p = "lastSubmissionTime s (msg_sender c)"
  let ?r = "submitGrantApplication c b x y s"
  note cases = submitGrantApplication_cases [of c b x y s]
  note ov = overflow_not_elapsed [of ?p "cooldownSeconds s" "block_timestamp c"]
  have iff: "(\<exists>s'. ?r = Inr s') \<longleftrightarrow>
      batchActive s b \<and> isProvider s (msg_sender c) \<and> \<not> paused s \<and>
      cooldown_elapsed ?p (cooldownSeconds s) (block_timestamp c)"
    using ov by (auto simp: cases)
  have e1: "\<not> isProvider s (msg_sender c) \<longrightarrow> ?r = Inl NotProvider"
    by (simp add: cases)
  have e2: "isProvider s (msg_sender c) \<and> paused s \<longrightarrow> ?r = Inl PausedError"
    by (simp add: cases)
  have e3: "isProvider s (msg_sender c) \<and> \<not> paused s \<and> \<not> batchActive s b \<longrightarrow>
      ?r = Inl BatchNotActive"
    by (simp add: cases)
  have e4: "isProvider s (msg_sender c) \<and> \<not> paused s \<and> batchActive s b \<and>
    \<not> cooldown_elapsed ?p (cooldownSeconds s) (block_timestamp c) \<longrightarrow>
      ?r = (if unat ?p + unat (cooldownSeconds s) < 2 ^ 256
            then Inl CooldownActive else Inl Panic)"
    by (simp add: cases)
  have f: "\<forall>err. ?r = Inl err \<longrightarrow> exec e c (SubmitGrantApplication b x y) s = s"
    by (simp add: exec_def)
  have g: "\<forall>s'. ?r = Inr s' \<longrightarrow>
      exec e c (SubmitGrantApplication b x y) s = s' \<and>
      applications s' b =
        \<lparr> encryptedAmount = x, encryptedScore = y, encryptedGrantAmount = 0 \<rparr> \<and>
      \<not> isInitialized (encryptedGrantAmount (applications s' b)) \<and>
      lastSubmissionTime s' (msg_sender c) = block_timestamp c"
    by (auto simp: exec_def cases isInitialized_def split: if_splits)
  from iff e1 e2 e3 e4 f g show ?thesis by blast
qed

theorem submit_iff_and_atomic_witness:
  "submitGrantApplication (at_time bob 1000) 1 100 4 demo_open = Inr demo_submitted \<and>
   exec demo_env (at_time bob 1000) (SubmitGrantApplication 1 100 4) demo_open = demo_submitted \<and>
   applications demo_submitted 1 =
     \<lparr> encryptedAmount = 100, encryptedScore = 4, encryptedGrantAmount = 0 \<rparr> \<and>
   lastSubmissionTime demo_submitted bob = 1000 \<and>
   submitGrantApplication (at_time carol 1000) 1 100 4 demo_open = Inl NotProvider \<and>
   submitGrantApplication (at_time bob 1000) 1 100 4 demo_paused = Inl PausedError \<and>
   submitGrantApplication (at_time bob 1000) 2 100 4 demo_open = Inl BatchNotActive \<and>
   submitGrantApplication (at_time bob 1030) 1 7 9 demo_submitted = Inl CooldownActive \<and>
   exec demo_env (at_time bob 1030) (SubmitGrantApplication 1 7 9) demo_submitted = demo_submitted"
proof -
  have ok: "batchActive demo_open 1 \<and> isProvider demo_open (msg_sender (at_time bob 1000)) \<and>
            \<not> paused demo_open \<and>
            cooldown_elapsed (lastSubmissionTime demo_open (msg_sender (at_time bob 1000)))
              (cooldownSeconds demo_open) (block_timestamp (at_time bob 1000))"
    by (simp add: demo_open_eq at_time_def bob_def cooldown_elapsed_def)
  with submit_iff_and_atomic [of "at_time bob 1000" 1 100 4 demo_open demo_env]
  obtain s' where s': "submitGrantApplication (at_time bob 1000) 1 100 4 demo_open = Inr s'"
    and ex: "exec demo_env (at_time bob 1000) (SubmitGrantApplication 1 100 4) demo_open = s'"
    and app: "applications s' 1 =
        \<lparr> encryptedAmount = 100, encryptedScore = 4, encryptedGrantAmount = 0 \<rparr>"
    and lst: "lastSubmissionTime s' (msg_sender (at_time bob 1000)) = block_timestamp (at_time bob 1000)"
    by blast
  from ex have eq: "s' = demo_submitted" by (simp add: demo_submitted_def)
  have t1: "submitGrantApplication (at_time bob 1000) 1 100 4 demo_open = Inr demo_submitted"
    using s' eq by simp
  have t2: "exec demo_env (at_time bob 1000) (SubmitGrantApplication 1 100 4) demo_open
              = demo_submitted"
    using ex eq by simp
  have t3: "applications demo_submitted 1 =
     \<lparr> encryptedAmount = 100, encryptedScore = 4, encryptedGrantAmount = 0 \<rparr>"
    using app eq by simp
  have t4: "lastSubmissionTime demo_submitted bob = 1000"
    using lst eq by (simp add: at_time_def)
  have "\<not> isProvider demo_open (msg_sender (at_time carol 1000))"
    by (simp add: demo_open_eq at_time_def carol_def)
  with submit_iff_and_atomic [of "at_time carol 1000" 1 100 4 demo_open demo_env]
  have t5: "submitGrantApplication (at_time carol 1000) 1 100 4 demo_open = Inl NotProvider"
    by blast
  have "isProvider demo_paused (msg_sender (at_time bob 1000)) \<and> paused demo_paused"
    by (simp add: demo_paused_eq at_time_def bob_def)
  with submit_iff_and_atomic [of "at_time bob 1000" 1 100 4 demo_paused demo_env]
  have t6: "submitGrantApplication (at_time bob 1000) 1 100 4 demo_paused = Inl PausedError"
    by blast
  have "isProvider demo_open (msg_sender (at_time bob 1000)) \<and> \<not> paused demo_open \<and>
        \<not> batchActive demo_open 2"
    by (simp add: demo_open_eq at_time_def bob_def)
  with submit_iff_and_atomic [of "at_time bob 1000" 2 100 4 demo_open demo_env]
  have t7: "submitGrantApplication (at_time bob 1000) 2 100 4 demo_open = Inl BatchNotActive"
    by blast
  have h8: "isProvider demo_submitted (msg_sender (at_time bob 1030)) \<and> \<not> paused demo_submitted \<and>
        batchActive demo_submitted 1 \<and>
        \<not> cooldown_elapsed (lastSubmissionTime demo_submitted (msg_sender (at_time bob 1030)))
            (cooldownSeconds demo_submitted) (block_timestamp (at_time bob 1030))"
    and b8: "unat (lastSubmissionTime demo_submitted (msg_sender (at_time bob 1030))) +
             unat (cooldownSeconds demo_submitted) < 2 ^ 256"
    by (simp_all add: demo_submitted_eq at_time_def bob_def cooldown_elapsed_def)
  from submit_iff_and_atomic [of "at_time bob 1030" 1 7 9 demo_submitted demo_env] h8
  have "submitGrantApplication (at_time bob 1030) 1 7 9 demo_submitted =
          (if unat (lastSubmissionTime demo_submitted (msg_sender (at_time bob 1030))) +
              unat (cooldownSeconds demo_submitted) < 2 ^ 256
           then Inl CooldownActive else Inl Panic)"
    by blast
  with b8 have t8: "submitGrantApplication (at_time bob 1030) 1 7 9 demo_submitted
                      = Inl CooldownActive"
    by simp
  with submit_iff_and_atomic [of "at_time bob 1030" 1 7 9 demo_submitted demo_env]
  have t9: "exec demo_env (at_time bob 1030) (SubmitGrantApplication 1 7 9) demo_submitted
              = demo_submitted"
    by blast
  from t1 t2 t3 t4 t5 t6 t7 t8 t9 show ?thesis by blast
qed

subsection \<open>The cooldown scenario\<close>

text \<open>
  Claim C6 (cooldown scenario).  The times of the scenario count from its start: the
  first submission is at block timestamp \<open>t\<close>, the second at \<open>t + 30\<close>, the third
  at \<open>t + 61\<close>.  With the cooldown at 60 seconds, take a provider that has no
  recorded submission (its last submission time reads as the default 0), an open batch
  and an unpaused contract, and a start \<open>t\<close> of at least 60, as every block timestamp
  of a chain is.  Then the first submission succeeds, the second by the same provider
  fails with \<open>CooldownActive\<close>, and the third succeeds: the check fails exactly when
  \<open>now < last + cooldown\<close>.  (The times up to \<open>t + 61\<close> are assumed to fit into a
  \<open>uint256\<close>.  At a block timestamp below 60, which no chain supplies, the check
  rejects the first submission as well, the default last time being 0.)
\<close>

theorem cooldown_scenario:
  assumes "cooldownSeconds s = 60"
    and "lastSubmissionTime s a = 0"
    and "isProvider s a" and "\<not> paused s" and "batchActive s b"
  shows "(unat t < 60 \<longrightarrow>
            submitGrantApplication (at_time a t) b x y s = Inl CooldownActive) \<and>
         (60 \<le> unat t \<and> unat t + 61 < 2 ^ 256 \<longrightarrow>
            (\<exists>s1 s3.
               submitGrantApplication (at_time a t) b x y s = Inr s1 \<and>
               submitGrantApplication (at_time a (t + 30)) b x2 y2 s1 = Inl CooldownActive \<and>
               submitGrantApplication (at_time a (t + 61)) b x3 y3 s1 = Inr s3))"
proof (intro conjI impI)
  assume "unat t < 60"
  with assms show "submitGrantApplication (at_time a t) b x y s = Inl CooldownActive"
    by (simp add: submitGrantApplication_cases at_time_def cooldown_elapsed_def)
next
  assume t: "60 \<le> unat t \<and> unat t + 61 < 2 ^ 256"
  define s1 where
    "s1 = s\<lparr> lastSubmissionTime := (lastSubmissionTime s)(a := t),
             applications :=
               (applications s)
                 (b := \<lparr> encryptedAmount = x, encryptedScore = y, encryptedGrantAmount = 0 \<rparr>),
             events := events s @ [GrantSubmitted a b x y] \<rparr>"
  have first: "submitGrantApplication (at_time a t) b x y s = Inr s1"
    using assms t by (simp add: submitGrantApplication_cases at_time_def cooldown_elapsed_def s1_def)
  have s1: "cooldownSeconds s1 = 60" "lastSubmissionTime s1 a = t" "isProvider s1 a"
    "\<not> paused s1" "batchActive s1 b"
    using assms by (simp_all add: s1_def)
  have u30: "unat (t + 30) = unat t + 30"
    using t unat_add_lem [of t 30] by simp
  have u61: "unat (t + 61) = unat t + 61"
    using t unat_add_lem [of t 61] by simp
  have second: "submitGrantApplication (at_time a (t + 30)) b x2 y2 s1 = Inl CooldownActive"
    using s1 t u30 by (simp add: submitGrantApplication_cases at_time_def cooldown_elapsed_def)
  have third: "\<exists>s3. submitGrantApplication (at_time a (t + 61)) b x3 y3 s1 = Inr s3"
    using s1 t u61 by (simp add: submitGrantApplication_cases at_time_def cooldown_elapsed_def)
  from first second third
  show "\<exists>s1 s3.
          submitGrantApplication (at_time a t) b x y s = Inr s1 \<and>
          submitGrantApplication (at_time a (t + 30)) b x2 y2 s1 = Inl CooldownActive \<and>
          submitGrantApplication (at_time a (t + 61)) b x3 y3 s1 = Inr s3"
    by blast
qed

theorem cooldown_scenario_witness:
  "cooldownSeconds demo_open = 60 \<and>
   lastSubmissionTime demo_open bob = 0 \<and>
   isProvider demo_open bob \<and> \<not> paused demo_open \<and> batchActive demo_open 1 \<and>
   submitGrantApplication (at_time bob 59) 1 100 4 demo_open = Inl CooldownActive \<and>
   submitGrantApplication (at_time bob 1000) 1 100 4 demo_open = Inr demo_submitted \<and>
   submitGrantApplication (at_time bob 1030) 1 7 9 demo_submitted = Inl CooldownActive \<and>
   (\<exists>s3. submitGrantApplication (at_time bob 1061) 1 7 9 demo_submitted = Inr s3)"
proof -
  have h: "cooldownSeconds demo_open = 60" "lastSubmissionTime demo_open bob = 0"
    "isProvider demo_open bob" "\<not> paused demo_open" "batchActive demo_open 1"
    by (simp_all add: demo_open_eq bob_def)
  note sc = cooldown_scenario [OF h]
  have t0: "submitGrantApplication (at_time bob 59) 1 100 4 demo_open = Inl CooldownActive"
    using sc [of 59 100 4] by simp
  have r: "submitGrantApplication (at_time bob 1000) 1 100 4 demo_open = Inr demo_submitted"
    by (simp add: demo_submitted_eq demo_open_eq eval_defs demo_defs)
  have "60 \<le> unat (1000 :: uint256) \<and> unat (1000 :: uint256) + 61 < 2 ^ 256"
    by simp
  with sc [of 1000 100 4 7 9 7 9] obtain s1 s3 where
    "submitGrantApplication (at_time bob 1000) 1 100 4 demo_open = Inr s1"
    "submitGrantApplication (at_time bob (1000 + 30)) 1 7 9 s1 = Inl CooldownActive"
    "submitGrantApplication (at_time bob (1000 + 61)) 1 7 9 s1 = Inr s3"
    by blast
  with r have
    "submitGrantApplication (at_time bob 1030) 1 7 9 demo_submitted = Inl CooldownActive"
    "submitGrantApplication (at_time bob 1061) 1 7 9 demo_submitted = Inr s3"
    by simp_all
  with h t0 r show ?thesis by blast
qed

subsection \<open>Owner operations while paused\<close>




end
